theory Spec2Isabelle
  imports Main "HOL-Library.Char_ord" "HOL-Library.List_Lexorder"
begin

section \<open>Data model\<close>

text \<open>
  The two scripts talk to a DefectDojo server over HTTP, read XML reports from a
  directory and print to the console. The embedding keeps the scripts' own control
  flow and makes those effects explicit: the server is a record of functions over an
  abstract server state (the parameter \<open>B\<close>), every request sent and every line
  printed is an event of a trace, and every \<^verbatim>\<open>raise\<close> is the \<open>Inl\<close> branch of a sum.
\<close>

subsection \<open>Exceptions\<close>

text \<open>
  One constructor per exception the scripts raise or let through. The first three are
  \<^verbatim>\<open>ValueError\<close> or subclasses of it (\<^verbatim>\<open>response.json()\<close> raises a
  \<^verbatim>\<open>JSONDecodeError\<close>, which is a \<^verbatim>\<open>ValueError\<close>); all others are not.
  \<^item> \<open>MalformedDocument path\<close>: \<^verbatim>\<open>ValueError("Failed to parse XML file ...")\<close>
  \<^item> \<open>MissingField field path\<close>: \<^verbatim>\<open>ValueError("Could not find <field> in ...")\<close>
  \<^item> \<open>ProductTypeNotFound name\<close>: \<^verbatim>\<open>Exception("Product type '...' not found in DefectDojo")\<close>
  \<^item> \<open>ProductCreationFailed status content\<close>: \<^verbatim>\<open>Exception("Failed to create/find product: ...")\<close>
  \<^item> \<open>AuthenticationFailed status content\<close>: \<^verbatim>\<open>Exception("Authentication failed: ...")\<close>
  \<^item> \<open>FileNotFoundError msg\<close>, \<open>KeyError msg\<close>: raised by \<^verbatim>\<open>main\<close> and by a dictionary read
  \<^item> \<open>OSError path\<close>: a report file that cannot be opened
  \<^item> \<open>RequestException\<close>: raised by \<^verbatim>\<open>requests\<close> when no response arrives
  \<^item> \<open>IndexError\<close>: reading element 0 of an empty list
\<close>

datatype error =
    MalformedDocument string
  | MissingField string string
  | JSONDecodeError
  | ProductTypeNotFound string
  | ProductCreationFailed int string
  | AuthenticationFailed int string
  | FileNotFoundError string
  | KeyError string
  | OSError string
  | RequestException
  | IndexError

fun is_ValueError :: "error \<Rightarrow> bool" where
  "is_ValueError (MalformedDocument _) = True"
| "is_ValueError (MissingField _ _) = True"
| "is_ValueError JSONDecodeError = True"
| "is_ValueError _ = False"

subsection \<open>Responses and the JSON they carry\<close>

text \<open>
  A response has a status code, the raw content, and a JSON body of which each call
  site reads one key (\<^verbatim>\<open>'results'\<close>, \<^verbatim>\<open>'id'\<close> or \<^verbatim>\<open>'token'\<close>): \<open>NotJSON\<close> when
  \<^verbatim>\<open>response.json()\<close> raises, \<open>NoKey\<close> when the key is missing, \<open>Value v\<close> otherwise.
  The elements of a result list are the server's objects, with the fields the scripts
  read; identities are JSON integers.
\<close>

datatype 'a json = NotJSON | NoKey | Value 'a

record 'a response =
  status_code :: int
  content :: string
  json_body :: "'a json"

record product_type =
  pt_id :: int

record product =
  p_id :: int
  p_prod_type :: int

record engagement =
  e_id :: int

record test =
  t_id :: int
  t_updated :: string

text \<open>The \<^verbatim>\<open>data\<close> dictionary of a POST: keys in the order written, values strings or integers.\<close>

datatype form_value = Str string | Num int

type_synonym form = "(string \<times> form_value) list"

subsection \<open>Requests, log lines, events\<close>

datatype request =
    GET_product_types string
  | GET_products string
  | POST_products form
  | GET_engagements int string
  | GET_tests int string
  | POST_import_scan form string
  | POST_reimport_scan form string
  | POST_api_token_auth string string

text \<open>The lines the scripts print, one constructor per format string.\<close>

datatype log_line =
    Successfully_imported string
  | Failed_to_import string int string
  | Successfully_reimported string int
  | Failed_to_reimport string int string
  | Processing string string string
  | Importing string string string
  | Error_processing string error
  | Unexpected_error_processing string error
  | No_XML_files_found string
  | An_error_occurred error

datatype event =
    Sent request
  | Printed log_line
  | Wrote_token_file string
  | Set_auth_token string

subsection \<open>The server\<close>

text \<open>
  Each field answers one endpoint in a server state \<open>'s\<close>. \<open>None\<close> means that
  \<^verbatim>\<open>requests\<close> raised instead of returning a response. A GET leaves the server state
  as it is; a POST returns the new one.
\<close>

record 's backend =
  product_types_GET :: "'s \<Rightarrow> string \<Rightarrow> product_type list response option"
  products_GET :: "'s \<Rightarrow> string \<Rightarrow> product list response option"
  products_POST :: "'s \<Rightarrow> form \<Rightarrow> int response option \<times> 's"
  engagements_GET :: "'s \<Rightarrow> int \<Rightarrow> string \<Rightarrow> engagement list response option"
  tests_GET :: "'s \<Rightarrow> int \<Rightarrow> string \<Rightarrow> test list response option"
  import_scan_POST :: "'s \<Rightarrow> form \<Rightarrow> string \<Rightarrow> unit response option \<times> 's"
  reimport_scan_POST :: "'s \<Rightarrow> form \<Rightarrow> string \<Rightarrow> unit response option \<times> 's"
  api_token_auth_POST :: "'s \<Rightarrow> string \<Rightarrow> string \<Rightarrow> string response option \<times> 's"

subsection \<open>Computations with a server state, a trace and exceptions\<close>

type_synonym ('s, 'a) io = "'s \<Rightarrow> (error + 'a) \<times> 's \<times> event list"

definition io_return :: "'a \<Rightarrow> ('s, 'a) io" where
  "io_return x = (\<lambda>s. (Inr x, s, []))"

definition io_raise :: "error \<Rightarrow> ('s, 'a) io" where
  "io_raise e = (\<lambda>s. (Inl e, s, []))"

definition io_bind :: "('s, 'a) io \<Rightarrow> ('a \<Rightarrow> ('s, 'b) io) \<Rightarrow> ('s, 'b) io" where
  "io_bind m f = (\<lambda>s.
     case m s of
       (Inl e, s', t) \<Rightarrow> (Inl e, s', t)
     | (Inr x, s', t) \<Rightarrow> (case f x s' of (r, s'', t') \<Rightarrow> (r, s'', t @ t')))"

text \<open>
  \<^verbatim>\<open>try: m except C as e: h(e)\<close>, where \<open>caught\<close> says which exceptions are instances
  of the class \<^verbatim>\<open>C\<close>; any other exception passes through.
\<close>

definition io_except :: "(error \<Rightarrow> bool) \<Rightarrow> ('s, 'a) io \<Rightarrow> (error \<Rightarrow> ('s, 'a) io) \<Rightarrow> ('s, 'a) io" where
  "io_except caught m h = (\<lambda>s.
     case m s of
       (Inl e, s', t) \<Rightarrow>
         (if caught e then (case h e s' of (r, s'', t') \<Rightarrow> (r, s'', t @ t'))
          else (Inl e, s', t))
     | (Inr x, s', t) \<Rightarrow> (Inr x, s', t))"

fun is_Exception :: "error \<Rightarrow> bool" where
  "is_Exception _ = True"

fun is_KeyError :: "error \<Rightarrow> bool" where
  "is_KeyError (KeyError _) = True"
| "is_KeyError _ = False"

definition print :: "log_line \<Rightarrow> ('s, unit) io" where
  "print l = (\<lambda>s. (Inr (), s, [Printed l]))"

definition emit :: "event \<Rightarrow> ('s, unit) io" where
  "emit ev = (\<lambda>s. (Inr (), s, [ev]))"

text \<open>\<^verbatim>\<open>session.get\<close>: the request is recorded, the server state is unchanged.\<close>

definition session_get :: "request \<Rightarrow> ('s \<Rightarrow> 'r option) \<Rightarrow> ('s, 'r) io" where
  "session_get rq ask = (\<lambda>s.
     case ask s of
       None \<Rightarrow> (Inl RequestException, s, [Sent rq])
     | Some r \<Rightarrow> (Inr r, s, [Sent rq]))"

text \<open>\<^verbatim>\<open>session.post\<close>: the request is recorded, the server moves to its next state.\<close>

definition session_post :: "request \<Rightarrow> ('s \<Rightarrow> 'r option \<times> 's) \<Rightarrow> ('s, 'r) io" where
  "session_post rq ask = (\<lambda>s.
     case ask s of
       (None, s') \<Rightarrow> (Inl RequestException, s', [Sent rq])
     | (Some r, s') \<Rightarrow> (Inr r, s', [Sent rq]))"

text \<open>\<^verbatim>\<open>response.json()[key]\<close>\<close>

definition json_get :: "string \<Rightarrow> 'a response \<Rightarrow> ('s, 'a) io" where
  "json_get key response =
     (case json_body response of
        NotJSON \<Rightarrow> io_raise JSONDecodeError
      | NoKey \<Rightarrow> io_raise (KeyError key)
      | Value v \<Rightarrow> io_return v)"

section \<open>The class DefectDojoImporter (defect\_dojo\_reimporter\_v1.2.py)\<close>

text \<open>
  \<^verbatim>\<open>get_product_type_id\<close>: the condition
  \<^verbatim>\<open>response.status_code == 200 and response.json()['results']\<close> reads the body only
  when the status is 200, and is true when the list is non-empty.
\<close>

definition get_product_type_id :: "'s backend \<Rightarrow> string \<Rightarrow> ('s, int) io" where
  "get_product_type_id B product_type_name =
     io_bind (session_get (GET_product_types product_type_name)
                (\<lambda>s. product_types_GET B s product_type_name)) (\<lambda>response.
       if status_code response = 200 then
         io_bind (json_get ''results'' response) (\<lambda>results.
           case results of
             [] \<Rightarrow> io_raise (ProductTypeNotFound product_type_name)
           | r # _ \<Rightarrow> io_return (pt_id r))
       else io_raise (ProductTypeNotFound product_type_name))"

text \<open>The \<^verbatim>\<open>for product in results: if product['prod_type'] == prod_type_id: return product['id']\<close> loop.\<close>

fun first_product_of_type :: "int \<Rightarrow> product list \<Rightarrow> int option" where
  "first_product_of_type prod_type_id [] = None"
| "first_product_of_type prod_type_id (product # rest) =
     (if p_prod_type product = prod_type_id then Some (p_id product)
      else first_product_of_type prod_type_id rest)"

definition new_product_data :: "string \<Rightarrow> int \<Rightarrow> form" where
  "new_product_data product_name prod_type_id =
     [(''name'', Str product_name),
      (''prod_type'', Num prod_type_id),
      (''description'', Str ''Automatically created by import script'')]"

definition create_product :: "'s backend \<Rightarrow> string \<Rightarrow> int \<Rightarrow> ('s, int) io" where
  "create_product B product_name prod_type_id =
     io_bind (session_post (POST_products (new_product_data product_name prod_type_id))
                (\<lambda>s. products_POST B s (new_product_data product_name prod_type_id))) (\<lambda>response.
       if status_code response = 201 then json_get ''id'' response
       else io_raise (ProductCreationFailed (status_code response) (content response)))"

definition get_product_id :: "'s backend \<Rightarrow> string \<Rightarrow> string \<Rightarrow> ('s, int) io" where
  "get_product_id B product_type_name product_name =
     io_bind (get_product_type_id B product_type_name) (\<lambda>prod_type_id.
     io_bind (session_get (GET_products product_name)
                (\<lambda>s. products_GET B s product_name)) (\<lambda>response.
       if status_code response = 200 then
         io_bind (json_get ''results'' response) (\<lambda>results.
           case first_product_of_type prod_type_id results of
             Some found \<Rightarrow> io_return found
           | None \<Rightarrow> create_product B product_name prod_type_id)
       else create_product B product_name prod_type_id))"

text \<open>\<^verbatim>\<open>get_engagement_id\<close> returns the first result's id, or \<^verbatim>\<open>None\<close>.\<close>

definition get_engagement_id :: "'s backend \<Rightarrow> int \<Rightarrow> string \<Rightarrow> ('s, int option) io" where
  "get_engagement_id B product_id engagement_name =
     io_bind (session_get (GET_engagements product_id engagement_name)
                (\<lambda>s. engagements_GET B s product_id engagement_name)) (\<lambda>response.
       if status_code response = 200 then
         io_bind (json_get ''results'' response) (\<lambda>results.
           case results of
             [] \<Rightarrow> io_return None
           | r # _ \<Rightarrow> io_return (Some (e_id r)))
       else io_return None)"

text \<open>
  \<^verbatim>\<open>sorted(xs, key=lambda x: x['updated'], reverse=True)\<close>: Python's sort is stable, and
  with \<^verbatim>\<open>reverse=True\<close> it reverses the list, sorts it ascending and stably, and
  reverses the result, so that equal keys keep their original order. \<open>sort_key\<close> is a
  stable ascending sort.
\<close>

definition sorted_reverse :: "('a \<Rightarrow> 'k::linorder) \<Rightarrow> 'a list \<Rightarrow> 'a list" where
  "sorted_reverse key xs = rev (sort_key key (rev xs))"

definition get_latest_test_id :: "'s backend \<Rightarrow> int \<Rightarrow> string \<Rightarrow> ('s, int option) io" where
  "get_latest_test_id B engagement_id scan_type =
     io_bind (session_get (GET_tests engagement_id scan_type)
                (\<lambda>s. tests_GET B s engagement_id scan_type)) (\<lambda>response.
       if status_code response = 200 then
         io_bind (json_get ''results'' response) (\<lambda>results.
           if results \<noteq> [] then
             (case sorted_reverse t_updated results of
                [] \<Rightarrow> io_raise IndexError
              | t # _ \<Rightarrow> io_return (Some (t_id t)))
           else io_return None)
       else io_return None)"

subsection \<open>The report files\<close>

text \<open>
  What the scripts can see of a file: it cannot be opened, it is not XML, or it is a
  document, of which \<^verbatim>\<open>root.find('.//application-name')\<close> and
  \<^verbatim>\<open>root.find('.//asoc-scan-name')\<close> are read. Of each element: \<open>None\<close> when there is
  no such element, \<open>Some None\<close> when it has no text, \<open>Some (Some s)\<close> otherwise.
\<close>

datatype xml_file =
    Unreadable
  | Not_XML
  | Document (application_name: "string option option") (asoc_scan_name: "string option option")

text \<open>\<^verbatim>\<open>element.text if element is not None else None\<close>\<close>

fun text_of :: "string option option \<Rightarrow> string option" where
  "text_of None = None"
| "text_of (Some text) = text"

text \<open>
  \<^verbatim>\<open>extract_xml_data\<close>: \<^verbatim>\<open>not product_name\<close> holds for \<^verbatim>\<open>None\<close> and for the empty
  string. It makes no request and prints nothing.
\<close>

definition extract_xml_data :: "(string \<Rightarrow> xml_file) \<Rightarrow> string \<Rightarrow> error + string \<times> string" where
  "extract_xml_data fs xml_file_path =
     (case fs xml_file_path of
        Unreadable \<Rightarrow> Inl (OSError xml_file_path)
      | Not_XML \<Rightarrow> Inl (MalformedDocument xml_file_path)
      | Document a e \<Rightarrow>
          (case text_of a of
             None \<Rightarrow> Inl (MissingField ''application-name'' xml_file_path)
           | Some product_name \<Rightarrow>
               if product_name = [] then Inl (MissingField ''application-name'' xml_file_path)
               else
                 (case text_of e of
                    None \<Rightarrow> Inl (MissingField ''asoc-scan-name'' xml_file_path)
                  | Some engagement_name \<Rightarrow>
                      if engagement_name = [] then Inl (MissingField ''asoc-scan-name'' xml_file_path)
                      else Inr (product_name, engagement_name))))"

definition lift_result :: "error + 'a \<Rightarrow> ('s, 'a) io" where
  "lift_result r = (\<lambda>s. (r, s, []))"

text \<open>\<^verbatim>\<open>with open(xml_file_path, 'rb') as f\<close>\<close>

definition open_rb :: "(string \<Rightarrow> xml_file) \<Rightarrow> string \<Rightarrow> ('s, unit) io" where
  "open_rb fs xml_file_path =
     (case fs xml_file_path of
        Unreadable \<Rightarrow> io_raise (OSError xml_file_path)
      | _ \<Rightarrow> io_return ())"

subsection \<open>The two uploads\<close>

definition import_scan_data :: "string \<Rightarrow> string \<Rightarrow> string \<Rightarrow> form" where
  "import_scan_data product_type_name product_name engagement_name =
     [(''scan_type'', Str ''HCL AppScan on Cloud SAST XML''),
      (''product_type_name'', Str product_type_name),
      (''product_name'', Str product_name),
      (''engagement_name'', Str engagement_name),
      (''auto_create_context'', Str ''true''),
      (''deduplication_on_engagement'', Str ''false''),
      (''close_old_findings'', Str ''false'')]"

definition import_scan ::
  "'s backend \<Rightarrow> (string \<Rightarrow> xml_file) \<Rightarrow> string \<Rightarrow> string \<Rightarrow> string \<Rightarrow> string \<Rightarrow> ('s, unit) io" where
  "import_scan B fs xml_file_path product_type_name product_name engagement_name =
     io_bind (open_rb fs xml_file_path) (\<lambda>_.
     io_bind (session_post
                (POST_import_scan (import_scan_data product_type_name product_name engagement_name)
                   xml_file_path)
                (\<lambda>s. import_scan_POST B s
                   (import_scan_data product_type_name product_name engagement_name)
                   xml_file_path)) (\<lambda>response.
       if status_code response = 201 then print (Successfully_imported xml_file_path)
       else print (Failed_to_import xml_file_path (status_code response) (content response))))"

definition reimport_scan_data :: "int \<Rightarrow> string \<Rightarrow> string \<Rightarrow> string \<Rightarrow> form" where
  "reimport_scan_data test_id product_type_name product_name engagement_name =
     [(''scan_type'', Str ''HCL AppScan on Cloud SAST XML''),
      (''product_type_name'', Str product_type_name),
      (''product_name'', Str product_name),
      (''engagement_name'', Str engagement_name),
      (''test'', Num test_id),
      (''auto_create_context'', Str ''true''),
      (''deduplication_on_engagement'', Str ''false''),
      (''close_old_findings'', Str ''false''),
      (''do_not_reactivate'', Str ''true'')]"

definition reimport_scan ::
  "'s backend \<Rightarrow> (string \<Rightarrow> xml_file) \<Rightarrow> string \<Rightarrow> int \<Rightarrow> string \<Rightarrow> string \<Rightarrow> string \<Rightarrow> ('s, unit) io" where
  "reimport_scan B fs xml_file_path test_id product_type_name product_name engagement_name =
     io_bind (open_rb fs xml_file_path) (\<lambda>_.
     io_bind (session_post
                (POST_reimport_scan
                   (reimport_scan_data test_id product_type_name product_name engagement_name)
                   xml_file_path)
                (\<lambda>s. reimport_scan_POST B s
                   (reimport_scan_data test_id product_type_name product_name engagement_name)
                   xml_file_path)) (\<lambda>response.
       if status_code response = 201 then print (Successfully_reimported xml_file_path test_id)
       else print (Failed_to_reimport xml_file_path (status_code response) (content response))))"

text \<open>
  \<^verbatim>\<open>get_auth_token\<close> and \<^verbatim>\<open>set_auth_token\<close>, the same in both scripts. Writing
  \<^verbatim>\<open>auth_token.json\<close> and setting the session's header are events of the trace.
\<close>

definition get_auth_token :: "'s backend \<Rightarrow> string \<Rightarrow> string \<Rightarrow> ('s, string) io" where
  "get_auth_token B username password =
     io_bind (session_post (POST_api_token_auth username password)
                (\<lambda>s. api_token_auth_POST B s username password)) (\<lambda>response.
       if status_code response = 200 then
         io_bind (json_get ''token'' response) (\<lambda>token.
         io_bind (emit (Wrote_token_file token)) (\<lambda>_.
         io_return token))
       else io_raise (AuthenticationFailed (status_code response) (content response)))"

definition set_auth_token :: "string \<Rightarrow> ('s, unit) io" where
  "set_auth_token token = emit (Set_auth_token token)"

section \<open>The function main\<close>

subsection \<open>What main reads from the machine\<close>

text \<open>
  \<open>settings_ini\<close> is \<open>None\<close> when the file does not exist, and otherwise the parsed
  file: a section name gives the section's keys, if the section exists. \<open>reports_dir\<close>
  is \<open>None\<close> when the directory \<^verbatim>\<open>asoc_sast_reports\<close> does not exist, and otherwise
  \<^verbatim>\<open>os.listdir\<close> of it. \<open>files\<close> gives each path's file.
\<close>

type_synonym config = "string \<Rightarrow> (string \<Rightarrow> string option) option"

record machine =
  settings_ini :: "config option"
  reports_dir :: "string list option"
  files :: "string \<Rightarrow> xml_file"

text \<open>\<^verbatim>\<open>config[section][key]\<close> raises \<^verbatim>\<open>KeyError\<close> for a missing section or key.\<close>

definition config_get :: "config \<Rightarrow> string \<Rightarrow> string \<Rightarrow> ('s, string) io" where
  "config_get config section key =
     (case config section of
        None \<Rightarrow> io_raise (KeyError section)
      | Some keys \<Rightarrow>
          (case keys key of
             None \<Rightarrow> io_raise (KeyError key)
           | Some v \<Rightarrow> io_return v))"

text \<open>\<^verbatim>\<open>f.endswith('.xml')\<close>\<close>

definition endswith :: "string \<Rightarrow> string \<Rightarrow> bool" where
  "endswith f suffix =
     (length suffix \<le> length f \<and> drop (length f - length suffix) f = suffix)"

text \<open>\<^verbatim>\<open>os.path.join(reports_dir, xml_file)\<close>, for a file name out of \<^verbatim>\<open>os.listdir\<close>.\<close>

definition path_join :: "string \<Rightarrow> string \<Rightarrow> string" where
  "path_join dir f = dir @ ''/'' @ f"

subsection \<open>Start-up\<close>

text \<open>
  The lines of \<^verbatim>\<open>main\<close> from its start to the list \<^verbatim>\<open>xml_files\<close>, which are the same
  text in both scripts. The result is the product-type name and the list.
\<close>

definition authenticate :: "'s backend \<Rightarrow> config \<Rightarrow> ('s, unit) io" where
  "authenticate B config =
     io_except is_KeyError
       (io_bind (config_get config ''credentials'' ''api_key'') (\<lambda>api_key.
        io_bind (emit (Wrote_token_file api_key)) (\<lambda>_.
        set_auth_token api_key)))
       (\<lambda>_.
        io_except is_KeyError
          (io_bind (config_get config ''credentials'' ''username'') (\<lambda>username.
           io_bind (config_get config ''credentials'' ''password'') (\<lambda>password.
           io_bind (get_auth_token B username password) (\<lambda>token.
           set_auth_token token))))
          (\<lambda>_. io_raise (KeyError ''Missing api_key or username and password in settings.ini'')))"

definition startup :: "machine \<Rightarrow> 's backend \<Rightarrow> ('s, string \<times> string list) io" where
  "startup M B =
     (case settings_ini M of
        None \<Rightarrow> io_raise (FileNotFoundError ''settings.ini file not found in the script directory'')
      | Some config \<Rightarrow>
          io_bind (authenticate B config) (\<lambda>_.
          io_bind (io_except is_KeyError
                     (config_get config ''configuration'' ''product_type_name'')
                     (\<lambda>_. io_raise (KeyError ''Missing product_type_name in settings.ini under [configuration]'')))
            (\<lambda>product_type_name.
              case reports_dir M of
                None \<Rightarrow> io_raise (FileNotFoundError ''Directory asoc_sast_reports not found'')
              | Some listing \<Rightarrow>
                  io_return (product_type_name, filter (\<lambda>f. endswith f ''.xml'') listing))))"

text \<open>A \<^verbatim>\<open>for\<close> loop over a list whose body has no \<^verbatim>\<open>break\<close>.\<close>

fun for_each :: "('a \<Rightarrow> ('s, unit) io) \<Rightarrow> 'a list \<Rightarrow> ('s, unit) io" where
  "for_each body [] = io_return ()"
| "for_each body (x # xs) = io_bind (body x) (\<lambda>_. for_each body xs)"

subsection \<open>defect\_dojo\_reimporter\_v1.2.py\<close>

text \<open>
  The \<^verbatim>\<open>if engagement_id: ... else: ...\<close> statement of the loop body.
  \<^verbatim>\<open>if engagement_id:\<close> and \<^verbatim>\<open>if test_id:\<close> are Python truth tests: \<^verbatim>\<open>None\<close> is
  false, and so is the integer 0.
\<close>

definition dispatch ::
  "'s backend \<Rightarrow> (string \<Rightarrow> xml_file) \<Rightarrow> string \<Rightarrow> string \<Rightarrow> string \<Rightarrow> string \<Rightarrow> int option
     \<Rightarrow> ('s, unit) io" where
  "dispatch B fs xml_file_path product_type_name product_name engagement_name engagement_id =
     (case engagement_id of
        None \<Rightarrow> import_scan B fs xml_file_path product_type_name product_name engagement_name
      | Some engagement \<Rightarrow>
          if engagement \<noteq> 0 then
            io_bind (get_latest_test_id B engagement ''HCL AppScan on Cloud SAST XML'') (\<lambda>test_id.
              case test_id of
                None \<Rightarrow>
                  import_scan B fs xml_file_path product_type_name product_name engagement_name
              | Some test \<Rightarrow>
                  if test \<noteq> 0 then
                    reimport_scan B fs xml_file_path test product_type_name product_name
                      engagement_name
                  else
                    import_scan B fs xml_file_path product_type_name product_name engagement_name)
          else import_scan B fs xml_file_path product_type_name product_name engagement_name)"

text \<open>The body of the \<^verbatim>\<open>try\<close> in the loop.\<close>

definition process_report ::
  "'s backend \<Rightarrow> (string \<Rightarrow> xml_file) \<Rightarrow> string \<Rightarrow> string \<Rightarrow> string \<Rightarrow> ('s, unit) io" where
  "process_report B fs product_type_name xml_file xml_file_path =
     io_bind (lift_result (extract_xml_data fs xml_file_path)) (\<lambda>(product_name, engagement_name).
     io_bind (print (Processing xml_file product_name engagement_name)) (\<lambda>_.
     io_bind (get_product_id B product_type_name product_name) (\<lambda>product_id.
     io_bind (get_engagement_id B product_id engagement_name) (\<lambda>engagement_id.
     dispatch B fs xml_file_path product_type_name product_name engagement_name engagement_id))))"

text \<open>
  The loop body with its two handlers: \<^verbatim>\<open>except ValueError\<close> first, then
  \<^verbatim>\<open>except Exception\<close>; both print and go on.
\<close>

definition loop_body :: "'s backend \<Rightarrow> (string \<Rightarrow> xml_file) \<Rightarrow> string \<Rightarrow> string \<Rightarrow> ('s, unit) io" where
  "loop_body B fs product_type_name xml_file =
     io_except is_Exception
       (process_report B fs product_type_name xml_file (path_join ''asoc_sast_reports'' xml_file))
       (\<lambda>e. if is_ValueError e then print (Error_processing xml_file e)
            else print (Unexpected_error_processing xml_file e))"

definition main :: "machine \<Rightarrow> 's backend \<Rightarrow> ('s, unit) io" where
  "main M B =
     io_bind (startup M B) (\<lambda>(product_type_name, xml_files).
       if xml_files = [] then print (No_XML_files_found ''asoc_sast_reports'')
       else for_each (loop_body B (files M) product_type_name) xml_files)"

text \<open>
  The script: \<^verbatim>\<open>try: main() except Exception as e: print(...)\<close>, after which the
  interpreter reaches the end of the file. The first component is the exit status of
  the process, which is 0 whenever the script ends without an uncaught exception; the
  script never calls \<^verbatim>\<open>sys.exit\<close>.
\<close>

definition script :: "machine \<Rightarrow> 's backend \<Rightarrow> 's \<Rightarrow> int \<times> 's \<times> event list" where
  "script M B s =
     (case io_except is_Exception (main M B) (\<lambda>e. print (An_error_occurred e)) s of
        (Inl e, s', t) \<Rightarrow> (1, s', t)
      | (Inr _, s', t) \<Rightarrow> (0, s', t))"

subsection \<open>defect\_dojo\_importer.py\<close>

definition importer_import_scan_data :: "string \<Rightarrow> string \<Rightarrow> string \<Rightarrow> form" where
  "importer_import_scan_data product_type_name product_name engagement_name =
     [(''scan_type'', Str ''HCL AppScan on Cloud SAST XML''),
      (''product_type_name'', Str product_type_name),
      (''product_name'', Str product_name),
      (''engagement_name'', Str engagement_name),
      (''auto_create_context'', Str ''true''),
      (''deduplication_on_engagement'', Str ''true''),
      (''close_old_findings'', Str ''true'')]"

definition importer_import_scan ::
  "'s backend \<Rightarrow> (string \<Rightarrow> xml_file) \<Rightarrow> string \<Rightarrow> string \<Rightarrow> string \<Rightarrow> string \<Rightarrow> ('s, unit) io" where
  "importer_import_scan B fs xml_file_path product_type_name product_name engagement_name =
     io_bind (open_rb fs xml_file_path) (\<lambda>_.
     io_bind (session_post
                (POST_import_scan
                   (importer_import_scan_data product_type_name product_name engagement_name)
                   xml_file_path)
                (\<lambda>s. import_scan_POST B s
                   (importer_import_scan_data product_type_name product_name engagement_name)
                   xml_file_path)) (\<lambda>response.
       if status_code response = 201 then print (Successfully_imported xml_file_path)
       else print (Failed_to_import xml_file_path (status_code response) (content response))))"

definition importer_process_report ::
  "'s backend \<Rightarrow> (string \<Rightarrow> xml_file) \<Rightarrow> string \<Rightarrow> string \<Rightarrow> string \<Rightarrow> ('s, unit) io" where
  "importer_process_report B fs product_type_name xml_file xml_file_path =
     io_bind (lift_result (extract_xml_data fs xml_file_path)) (\<lambda>(product_name, engagement_name).
     io_bind (print (Importing xml_file product_name engagement_name)) (\<lambda>_.
     importer_import_scan B fs xml_file_path product_type_name product_name engagement_name))"

text \<open>The loop body has one handler, \<^verbatim>\<open>except ValueError\<close>.\<close>

definition importer_loop_body ::
  "'s backend \<Rightarrow> (string \<Rightarrow> xml_file) \<Rightarrow> string \<Rightarrow> string \<Rightarrow> ('s, unit) io" where
  "importer_loop_body B fs product_type_name xml_file =
     io_except is_ValueError
       (importer_process_report B fs product_type_name xml_file
          (path_join ''asoc_sast_reports'' xml_file))
       (\<lambda>e. print (Error_processing xml_file e))"

definition importer_main :: "machine \<Rightarrow> 's backend \<Rightarrow> ('s, unit) io" where
  "importer_main M B =
     io_bind (startup M B) (\<lambda>(product_type_name, xml_files).
       if xml_files = [] then print (No_XML_files_found ''asoc_sast_reports'')
       else for_each (importer_loop_body B (files M) product_type_name) xml_files)"

definition importer_script :: "machine \<Rightarrow> 's backend \<Rightarrow> 's \<Rightarrow> int \<times> 's \<times> event list" where
  "importer_script M B s =
     (case io_except is_Exception (importer_main M B) (\<lambda>e. print (An_error_occurred e)) s of
        (Inl e, s', t) \<Rightarrow> (1, s', t)
      | (Inr _, s', t) \<Rightarrow> (0, s', t))"

section \<open>A server in memory\<close>

text \<open>
  A small server on which the scripts can be run on concrete inputs. It keeps product
  types, products, engagements and tests in lists, answers every search with status
  200 and the matching objects in stored order, and stores a created product under a
  fresh identity. It accepts every upload with status 201 and stores nothing for it.
\<close>

record server =
  srv_product_types :: "(string \<times> int) list"
  srv_products :: "(string \<times> product) list"
  srv_engagements :: "((int \<times> string) \<times> int) list"
  srv_tests :: "((int \<times> string) \<times> test) list"
  srv_next_id :: int

definition ok :: "'a \<Rightarrow> 'a response" where
  "ok v = \<lparr>status_code = 200, content = [], json_body = Value v\<rparr>"

definition created :: "'a \<Rightarrow> 'a response" where
  "created v = \<lparr>status_code = 201, content = [], json_body = Value v\<rparr>"

definition server_error :: "'a response" where
  "server_error = \<lparr>status_code = 500, content = ''Server Error'', json_body = NotJSON\<rparr>"

definition store_product :: "server \<Rightarrow> form \<Rightarrow> int response option \<times> server" where
  "store_product s data =
     (case map_of data ''name'' of
        Some (Str name) \<Rightarrow>
          (case map_of data ''prod_type'' of
             Some (Num pt) \<Rightarrow>
               (Some (created (srv_next_id s)),
                s\<lparr>srv_products :=
                    srv_products s @ [(name, \<lparr>p_id = srv_next_id s, p_prod_type = pt\<rparr>)],
                  srv_next_id := srv_next_id s + 1\<rparr>)
           | _ \<Rightarrow> (Some \<lparr>status_code = 400, content = ''Bad Request'', json_body = NotJSON\<rparr>, s))
      | _ \<Rightarrow> (Some \<lparr>status_code = 400, content = ''Bad Request'', json_body = NotJSON\<rparr>, s))"

definition memory_backend :: "server backend" where
  "memory_backend =
     \<lparr>product_types_GET = (\<lambda>s name.
        Some (ok (map (\<lambda>(n, i). \<lparr>pt_id = i\<rparr>) (filter (\<lambda>(n, i). n = name) (srv_product_types s))))),
      products_GET = (\<lambda>s name.
        Some (ok (map snd (filter (\<lambda>(n, p). n = name) (srv_products s))))),
      products_POST = store_product,
      engagements_GET = (\<lambda>s product name.
        Some (ok (map (\<lambda>(k, i). \<lparr>e_id = i\<rparr>)
                    (filter (\<lambda>(k, i). k = (product, name)) (srv_engagements s))))),
      tests_GET = (\<lambda>s engagement scan_type.
        Some (ok (map snd (filter (\<lambda>(k, t). k = (engagement, scan_type)) (srv_tests s))))),
      import_scan_POST = (\<lambda>s data path. (Some (created ()), s)),
      reimport_scan_POST = (\<lambda>s data path. (Some (created ()), s)),
      api_token_auth_POST = (\<lambda>s username password. (Some (ok ''0123abcd''), s))\<rparr>"

definition example_server :: server where
  "example_server =
     \<lparr>srv_product_types = [(''Web'', 1), (''Mobile'', 2)],
      srv_products = [(''PayGateway'', \<lparr>p_id = 10, p_prod_type = 2\<rparr>)],
      srv_engagements = [((10, ''Nightly-SAST''), 20)],
      srv_tests =
        [((20, ''HCL AppScan on Cloud SAST XML''), \<lparr>t_id = 30, t_updated = ''T0''\<rparr>),
         ((20, ''HCL AppScan on Cloud SAST XML''), \<lparr>t_id = 31, t_updated = ''T1''\<rparr>)],
      srv_next_id = 100\<rparr>"

text \<open>Which requests a trace holds.\<close>

fun requests :: "event list \<Rightarrow> request list" where
  "requests [] = []"
| "requests (Sent r # t) = r # requests t"
| "requests (_ # t) = requests t"



text \<open>A directory of reports and a settings file to run the scripts on.\<close>

definition example_files :: "string \<Rightarrow> xml_file" where
  "example_files path =
     (if path = ''asoc_sast_reports/a.xml''
      then Document (Some (Some ''PayGateway'')) (Some (Some ''Nightly-SAST''))
      else if path = ''asoc_sast_reports/b.xml'' then Not_XML
      else Unreadable)"

definition example_config :: config where
  "example_config section =
     (if section = ''credentials''
      then Some (\<lambda>key. if key = ''api_key'' then Some ''0123abcd'' else None)
      else if section = ''configuration''
      then Some (\<lambda>key. if key = ''product_type_name'' then Some ''Mobile'' else None)
      else None)"

definition example_machine :: machine where
  "example_machine =
     \<lparr>settings_ini = Some example_config,
      reports_dir = Some [''b.xml'', ''notes.txt'', ''a.xml''],
      files = example_files\<rparr>"





section \<open>Unfolding a computation\<close>

lemmas io_defs = io_bind_def io_return_def io_raise_def io_except_def session_get_def
  session_post_def json_get_def print_def emit_def lift_result_def

section \<open>The test locator\<close>






section \<open>Resolving the product\<close>

lemma first_product_of_type_none:
  "(\<forall>p\<in>set candidates. p_prod_type p \<noteq> t) \<Longrightarrow> first_product_of_type t candidates = None"
  by (induction candidates) simp_all

lemma first_product_of_type_first:
  "(\<forall>q\<in>set before. p_prod_type q \<noteq> t) \<Longrightarrow> p_prod_type p = t \<Longrightarrow>
     first_product_of_type t (before @ p # after) = Some (p_id p)"
  by (induction before) simp_all

text \<open>
  Claim C3. Let the product-type search resolve the product type (status 200, first
  result \<open>pt\<close>) and the product search answer with status 200 and a list of same-named
  candidates. If every candidate belongs to another product type, \<^verbatim>\<open>get_product_id\<close>
  reuses none of them: it posts a new product with the requested name, the resolved
  product-type id and the fixed description, and its result is that of the creation
  (the new identity on status 201, \<^verbatim>\<open>ProductCreationFailed\<close> on any other status).
  A candidate is accepted only if its product type is the resolved one, and the
  first such candidate in the list is returned, with no creation.
\<close>

theorem get_product_id_scoped_to_product_type:
  assumes "product_types_GET B s product_type_name = Some tr"
    and "status_code tr = 200"
    and "json_body tr = Value (pt # pts)"
    and "products_GET B s product_name = Some pr"
    and "status_code pr = 200"
    and "json_body pr = Value candidates"
  shows "((\<forall>p\<in>set candidates. p_prod_type p \<noteq> pt_id pt) \<longrightarrow>
            (\<exists>resp s'.
               products_POST B s
                 [(''name'', Str product_name), (''prod_type'', Num (pt_id pt)),
                  (''description'', Str ''Automatically created by import script'')] = (resp, s') \<and>
               get_product_id B product_type_name product_name s =
                 (case resp of
                    None \<Rightarrow> Inl RequestException
                  | Some r \<Rightarrow>
                      if status_code r = 201 then
                        (case json_body r of
                           NotJSON \<Rightarrow> Inl JSONDecodeError
                         | NoKey \<Rightarrow> Inl (KeyError ''id'')
                         | Value new_id \<Rightarrow> Inr new_id)
                      else Inl (ProductCreationFailed (status_code r) (content r)),
                  s',
                  [Sent (GET_product_types product_type_name), Sent (GET_products product_name),
                   Sent (POST_products
                     [(''name'', Str product_name), (''prod_type'', Num (pt_id pt)),
                      (''description'', Str ''Automatically created by import script'')])]))) \<and>
         (\<forall>before p after.
            candidates = before @ p # after \<and> (\<forall>q\<in>set before. p_prod_type q \<noteq> pt_id pt) \<and>
            p_prod_type p = pt_id pt \<longrightarrow>
              get_product_id B product_type_name product_name s =
                (Inr (p_id p), s,
                 [Sent (GET_product_types product_type_name), Sent (GET_products product_name)]))"
proof (intro conjI impI allI)
  assume other: "\<forall>p\<in>set candidates. p_prod_type p \<noteq> pt_id pt"
  let ?data = "[(''name'', Str product_name), (''prod_type'', Num (pt_id pt)),
                  (''description'', Str ''Automatically created by import script'')]"
  obtain resp s' where post: "products_POST B s ?data = (resp, s')"
    by (cases "products_POST B s ?data")
  have none: "first_product_of_type (pt_id pt) candidates = None"
    using other by (rule first_product_of_type_none)
  have "get_product_id B product_type_name product_name s =
      (case resp of
         None \<Rightarrow> Inl RequestException
       | Some r \<Rightarrow>
           if status_code r = 201 then
             (case json_body r of
                NotJSON \<Rightarrow> Inl JSONDecodeError
              | NoKey \<Rightarrow> Inl (KeyError ''id'')
              | Value new_id \<Rightarrow> Inr new_id)
           else Inl (ProductCreationFailed (status_code r) (content r)),
       s',
       [Sent (GET_product_types product_type_name), Sent (GET_products product_name),
        Sent (POST_products ?data)])"
    using assms none post
    by (simp add: get_product_id_def get_product_type_id_def create_product_def
        new_product_data_def io_defs split: option.splits json.splits)
  with post show "\<exists>resp s'. products_POST B s ?data = (resp, s') \<and>
      get_product_id B product_type_name product_name s =
      (case resp of
         None \<Rightarrow> Inl RequestException
       | Some r \<Rightarrow>
           if status_code r = 201 then
             (case json_body r of
                NotJSON \<Rightarrow> Inl JSONDecodeError
              | NoKey \<Rightarrow> Inl (KeyError ''id'')
              | Value new_id \<Rightarrow> Inr new_id)
           else Inl (ProductCreationFailed (status_code r) (content r)),
       s',
       [Sent (GET_product_types product_type_name), Sent (GET_products product_name),
        Sent (POST_products ?data)])"
    by (intro exI conjI)
next
  fix before p after
  assume h: "candidates = before @ p # after \<and> (\<forall>q\<in>set before. p_prod_type q \<noteq> pt_id pt) \<and>
            p_prod_type p = pt_id pt"
  then have "first_product_of_type (pt_id pt) candidates = Some (p_id p)"
    by (simp add: first_product_of_type_first)
  with assms show "get_product_id B product_type_name product_name s =
                (Inr (p_id p), s,
                 [Sent (GET_product_types product_type_name), Sent (GET_products product_name)])"
    by (simp add: get_product_id_def get_product_type_id_def io_defs)
qed

lemma example_web:
  "product_types_GET memory_backend example_server ''Web'' = Some (ok [\<lparr>pt_id = 1\<rparr>])"
  by (simp add: memory_backend_def example_server_def)

lemma example_mobile:
  "product_types_GET memory_backend example_server ''Mobile'' = Some (ok [\<lparr>pt_id = 2\<rparr>])"
  by (simp add: memory_backend_def example_server_def)

lemma example_products:
  "products_GET memory_backend example_server ''PayGateway'' =
     Some (ok [\<lparr>p_id = 10, p_prod_type = 2\<rparr>])"
  by (simp add: memory_backend_def example_server_def)

theorem get_product_id_scoped_to_product_type_witness:
  "get_product_id memory_backend ''Web'' ''PayGateway'' example_server =
     (Inr 100,
      example_server\<lparr>srv_products :=
        [(''PayGateway'', \<lparr>p_id = 10, p_prod_type = 2\<rparr>),
         (''PayGateway'', \<lparr>p_id = 100, p_prod_type = 1\<rparr>)],
        srv_next_id := 101\<rparr>,
      [Sent (GET_product_types ''Web''), Sent (GET_products ''PayGateway''),
       Sent (POST_products
         [(''name'', Str ''PayGateway''), (''prod_type'', Num 1),
          (''description'', Str ''Automatically created by import script'')])]) \<and>
   get_product_id memory_backend ''Mobile'' ''PayGateway'' example_server =
     (Inr 10, example_server,
      [Sent (GET_product_types ''Mobile''), Sent (GET_products ''PayGateway'')])"
  using get_product_id_scoped_to_product_type [OF example_web _ _ example_products,
      of "\<lparr>pt_id = 1\<rparr>" "[]" "[\<lparr>p_id = 10, p_prod_type = 2\<rparr>]"]
    get_product_id_scoped_to_product_type [OF example_mobile _ _ example_products,
      of "\<lparr>pt_id = 2\<rparr>" "[]" "[\<lparr>p_id = 10, p_prod_type = 2\<rparr>]"]
  apply (simp add: ok_def)
  apply (simp add: memory_backend_def store_product_def example_server_def created_def)
  apply (elim conjE)
  apply (drule spec[of _ "[]"])
  apply simp
  done

section \<open>The loop over the reports\<close>

lemma loop_body_caught:
  assumes "process_report B fs product_type_name xml_file
             (path_join ''asoc_sast_reports'' xml_file) s = (Inl e, s', t)"
  shows "loop_body B fs product_type_name xml_file s =
           (Inr (), s',
            t @ [Printed (if is_ValueError e then Error_processing xml_file e
                          else Unexpected_error_processing xml_file e)])"
  using assms by (simp add: loop_body_def io_except_def print_def)

lemma loop_body_passed:
  assumes "process_report B fs product_type_name xml_file
             (path_join ''asoc_sast_reports'' xml_file) s = (Inr u, s', t)"
  shows "loop_body B fs product_type_name xml_file s = (Inr (), s', t)"
  using assms by (simp add: loop_body_def io_except_def)

lemma loop_body_returns:
  "\<exists>s' t. loop_body B fs product_type_name xml_file s = (Inr (), s', t)"
proof -
  obtain r s' t where run: "process_report B fs product_type_name xml_file
      (path_join ''asoc_sast_reports'' xml_file) s = (r, s', t)"
    by (cases "process_report B fs product_type_name xml_file
      (path_join ''asoc_sast_reports'' xml_file) s")
  show ?thesis
  proof (cases r)
    case (Inl e)
    from run have "process_report B fs product_type_name xml_file
      (path_join ''asoc_sast_reports'' xml_file) s = (Inl e, s', t)"
      by (simp only: Inl)
    from loop_body_caught[OF this] show ?thesis by (intro exI)
  next
    case (Inr u)
    from run have "process_report B fs product_type_name xml_file
      (path_join ''asoc_sast_reports'' xml_file) s = (Inr u, s', t)"
      by (simp only: Inr)
    from loop_body_passed[OF this] show ?thesis by (intro exI)
  qed
qed

lemma for_each_step:
  assumes "body x s = (Inr (), s1, t1)"
  shows "for_each body (x # xs) s =
           (case for_each body xs s1 of (r, s2, t2) \<Rightarrow> (r, s2, t1 @ t2))"
  using assms by (simp add: io_bind_def)

lemma for_each_stop:
  assumes "body x s = (Inl e, s1, t1)"
  shows "for_each body (x # xs) s = (Inl e, s1, t1)"
  using assms by (simp add: io_bind_def)

lemma for_each_loop_body_returns:
  "\<exists>s' t. for_each (loop_body B fs product_type_name) xml_files s = (Inr (), s', t)"
proof (induction xml_files arbitrary: s)
  case Nil
  show ?case by (simp add: io_return_def)
next
  case (Cons f fs')
  obtain s1 t1 where one: "loop_body B fs product_type_name f s = (Inr (), s1, t1)"
    using loop_body_returns[of B fs product_type_name f s] by (elim exE)
  obtain s2 t2 where rest: "for_each (loop_body B fs product_type_name) fs' s1 = (Inr (), s2, t2)"
    using Cons.IH[of s1] by (elim exE)
  show ?case
    using for_each_step[where body = "loop_body B fs product_type_name", OF one, of fs'] rest
    by simp
qed

section \<open>Resolving the product type\<close>

text \<open>
  Claim C5. When the product-type search answers with status 200 and no results,
  \<^verbatim>\<open>get_product_type_id\<close> raises \<^verbatim>\<open>ProductTypeNotFound\<close> after the one search request:
  it creates nothing. In the loop of \<^verbatim>\<open>main\<close> this error ends the work on the current
  report (nothing is sent after the search, the error is printed with the file name)
  and the loop goes on with the remaining files from the same server state.
\<close>

theorem get_product_type_id_not_found:
  assumes "product_types_GET B s product_type_name = Some tr"
    and "status_code tr = 200"
    and "json_body tr = Value []"
  shows "get_product_type_id B product_type_name s =
           (Inl (ProductTypeNotFound product_type_name), s,
            [Sent (GET_product_types product_type_name)]) \<and>
         (\<forall>product_name engagement_name.
            extract_xml_data fs (path_join ''asoc_sast_reports'' xml_file) =
              Inr (product_name, engagement_name) \<longrightarrow>
            loop_body B fs product_type_name xml_file s =
              (Inr (), s,
               [Printed (Processing xml_file product_name engagement_name),
                Sent (GET_product_types product_type_name),
                Printed (Unexpected_error_processing xml_file
                           (ProductTypeNotFound product_type_name))]) \<and>
            for_each (loop_body B fs product_type_name) (xml_file # xml_files) s =
              (case for_each (loop_body B fs product_type_name) xml_files s of
                 (r, s', t) \<Rightarrow>
                   (r, s',
                    [Printed (Processing xml_file product_name engagement_name),
                     Sent (GET_product_types product_type_name),
                     Printed (Unexpected_error_processing xml_file
                                (ProductTypeNotFound product_type_name))] @ t)))"
proof (intro conjI allI impI)
  show nf: "get_product_type_id B product_type_name s =
           (Inl (ProductTypeNotFound product_type_name), s,
            [Sent (GET_product_types product_type_name)])"
    using assms by (simp add: get_product_type_id_def io_defs)
  fix product_name engagement_name
  assume ex: "extract_xml_data fs (path_join ''asoc_sast_reports'' xml_file) =
              Inr (product_name, engagement_name)"
  have pr: "process_report B fs product_type_name xml_file
          (path_join ''asoc_sast_reports'' xml_file) s =
        (Inl (ProductTypeNotFound product_type_name), s,
         [Printed (Processing xml_file product_name engagement_name),
          Sent (GET_product_types product_type_name)])"
    using nf ex by (simp add: process_report_def get_product_id_def io_bind_def lift_result_def print_def)
  show lb: "loop_body B fs product_type_name xml_file s =
              (Inr (), s,
               [Printed (Processing xml_file product_name engagement_name),
                Sent (GET_product_types product_type_name),
                Printed (Unexpected_error_processing xml_file
                           (ProductTypeNotFound product_type_name))])"
    using loop_body_caught[OF pr] by simp
  show "for_each (loop_body B fs product_type_name) (xml_file # xml_files) s =
              (case for_each (loop_body B fs product_type_name) xml_files s of
                 (r, s', t) \<Rightarrow>
                   (r, s',
                    [Printed (Processing xml_file product_name engagement_name),
                     Sent (GET_product_types product_type_name),
                     Printed (Unexpected_error_processing xml_file
                                (ProductTypeNotFound product_type_name))] @ t))"
    using for_each_step[where body = "loop_body B fs product_type_name", OF lb] by simp
qed

lemma example_unknown_type:
  "product_types_GET memory_backend example_server ''Desktop'' = Some (ok [])"
  by (simp add: memory_backend_def example_server_def)

lemma example_extract:
  "extract_xml_data example_files (path_join ''asoc_sast_reports'' ''a.xml'') =
     Inr (''PayGateway'', ''Nightly-SAST'')"
  by (simp add: extract_xml_data_def example_files_def path_join_def)

theorem get_product_type_id_not_found_witness:
  "get_product_type_id memory_backend ''Desktop'' example_server =
     (Inl (ProductTypeNotFound ''Desktop''), example_server, [Sent (GET_product_types ''Desktop'')]) \<and>
   for_each (loop_body memory_backend example_files ''Desktop'') [''a.xml''] example_server =
     (Inr (), example_server,
      [Printed (Processing ''a.xml'' ''PayGateway'' ''Nightly-SAST''),
       Sent (GET_product_types ''Desktop''),
       Printed (Unexpected_error_processing ''a.xml'' (ProductTypeNotFound ''Desktop''))])"
  using get_product_type_id_not_found [OF example_unknown_type, of example_files "''a.xml''" "[]"]
    example_extract
  by (simp add: ok_def io_return_def)

section \<open>Isolation of failures in the two loops\<close>

text \<open>
  In \<^verbatim>\<open>defect_dojo_reimporter_v1.2.py\<close> the loop never ends early: whatever the
  server answers and whatever the files hold, every file of the list is worked on
  and \<^verbatim>\<open>main\<close>'s loop returns normally (\<open>for_each_loop_body_returns\<close>), a failure
  being printed with the file's name (\<open>loop_body_caught\<close>).
\<close>

text \<open>
  In \<^verbatim>\<open>defect_dojo_importer.py\<close> an exception that is no \<^verbatim>\<open>ValueError\<close> ends the
  loop at the file that raised it: the files after it are not worked on.
\<close>

lemma importer_loop_stops:
  assumes "importer_process_report B fs product_type_name xml_file
             (path_join ''asoc_sast_reports'' xml_file) s = (Inl e, s', t)"
    and "\<not> is_ValueError e"
  shows "for_each (importer_loop_body B fs product_type_name) (xml_file # xml_files) s =
           (Inl e, s', t)"
proof -
  have "importer_loop_body B fs product_type_name xml_file s = (Inl e, s', t)"
    using assms by (simp add: importer_loop_body_def io_except_def)
  then show ?thesis
    by (rule for_each_stop[where body = "importer_loop_body B fs product_type_name"])
qed

lemma example_startup:
  "startup (example_machine\<lparr>reports_dir := Some [''c.xml'', ''a.xml'']\<rparr>) memory_backend
     example_server =
   (Inr (''Mobile'', [''c.xml'', ''a.xml'']), example_server,
    [Wrote_token_file ''0123abcd'', Set_auth_token ''0123abcd''])"
  by (simp add: startup_def authenticate_def example_machine_def example_config_def
      config_get_def set_auth_token_def endswith_def io_defs)

text \<open>
  Claim C4, in \<^verbatim>\<open>defect_dojo_importer.py\<close>: the loop has the single handler
  \<^verbatim>\<open>except ValueError\<close>. With the directory holding \<^verbatim>\<open>c.xml\<close>, which cannot be
  opened, and then the well-formed \<^verbatim>\<open>a.xml\<close>, the \<^verbatim>\<open>OSError\<close> of the first file
  leaves the loop and \<^verbatim>\<open>main\<close>: the script prints \<^verbatim>\<open>An error occurred\<close> and ends,
  and \<^verbatim>\<open>a.xml\<close> is never read nor uploaded. On the same input the loop of
  \<^verbatim>\<open>defect_dojo_reimporter_v1.2.py\<close> prints the error for \<^verbatim>\<open>c.xml\<close> and goes on to
  upload \<^verbatim>\<open>a.xml\<close>.
\<close>

theorem importer_loop_aborts_on_unreadable_file:
  "importer_script (example_machine\<lparr>reports_dir := Some [''c.xml'', ''a.xml'']\<rparr>)
     memory_backend example_server =
   (0, example_server,
    [Wrote_token_file ''0123abcd'', Set_auth_token ''0123abcd'',
     Printed (An_error_occurred (OSError ''asoc_sast_reports/c.xml''))]) \<and>
   script (example_machine\<lparr>reports_dir := Some [''c.xml'', ''a.xml'']\<rparr>)
     memory_backend example_server =
   (0, example_server,
    [Wrote_token_file ''0123abcd'', Set_auth_token ''0123abcd'',
     Printed (Unexpected_error_processing ''c.xml'' (OSError ''asoc_sast_reports/c.xml'')),
     Printed (Processing ''a.xml'' ''PayGateway'' ''Nightly-SAST''),
     Sent (GET_product_types ''Mobile''),
     Sent (GET_products ''PayGateway''),
     Sent (GET_engagements 10 ''Nightly-SAST''),
     Sent (GET_tests 20 ''HCL AppScan on Cloud SAST XML''),
     Sent (POST_reimport_scan
       (reimport_scan_data 31 ''Mobile'' ''PayGateway'' ''Nightly-SAST'')
       ''asoc_sast_reports/a.xml''),
     Printed (Successfully_reimported ''asoc_sast_reports/a.xml'' 31)])"
proof
  show "importer_script (example_machine\<lparr>reports_dir := Some [''c.xml'', ''a.xml'']\<rparr>)
     memory_backend example_server =
   (0, example_server,
    [Wrote_token_file ''0123abcd'', Set_auth_token ''0123abcd'',
     Printed (An_error_occurred (OSError ''asoc_sast_reports/c.xml''))])"
    by (simp add: importer_script_def importer_main_def example_startup importer_loop_body_def
        importer_process_report_def extract_xml_data_def path_join_def io_defs)
      (simp add: example_machine_def example_files_def)
next
  have c: "loop_body memory_backend example_files ''Mobile'' ''c.xml'' example_server =
      (Inr (), example_server,
       [Printed (Unexpected_error_processing ''c.xml'' (OSError ''asoc_sast_reports/c.xml''))])"
    by (simp add: loop_body_def process_report_def extract_xml_data_def path_join_def
        example_files_def io_defs)
  have pid: "get_product_id memory_backend ''Mobile'' ''PayGateway'' example_server =
      (Inr 10, example_server, [Sent (GET_product_types ''Mobile''), Sent (GET_products ''PayGateway'')])"
    by (simp add: get_product_id_def get_product_type_id_def memory_backend_def
        example_server_def ok_def io_defs)
  have eid: "get_engagement_id memory_backend 10 ''Nightly-SAST'' example_server =
      (Inr (Some 20), example_server, [Sent (GET_engagements 10 ''Nightly-SAST'')])"
    by (simp add: get_engagement_id_def memory_backend_def example_server_def ok_def io_defs)
  have tid: "get_latest_test_id memory_backend 20 ''HCL AppScan on Cloud SAST XML'' example_server =
      (Inr (Some 31), example_server, [Sent (GET_tests 20 ''HCL AppScan on Cloud SAST XML'')])"
    by (simp add: get_latest_test_id_def memory_backend_def example_server_def ok_def io_defs
        sorted_reverse_def)
  have up: "reimport_scan memory_backend example_files ''asoc_sast_reports/a.xml'' 31 ''Mobile''
      ''PayGateway'' ''Nightly-SAST'' example_server =
      (Inr (), example_server,
       [Sent (POST_reimport_scan
          (reimport_scan_data 31 ''Mobile'' ''PayGateway'' ''Nightly-SAST'')
          ''asoc_sast_reports/a.xml''),
        Printed (Successfully_reimported ''asoc_sast_reports/a.xml'' 31)])"
    by (simp add: reimport_scan_def open_rb_def example_files_def memory_backend_def
        created_def io_defs)
  have a: "loop_body memory_backend example_files ''Mobile'' ''a.xml'' example_server =
      (Inr (), example_server,
       [Printed (Processing ''a.xml'' ''PayGateway'' ''Nightly-SAST''),
        Sent (GET_product_types ''Mobile''),
        Sent (GET_products ''PayGateway''),
        Sent (GET_engagements 10 ''Nightly-SAST''),
        Sent (GET_tests 20 ''HCL AppScan on Cloud SAST XML''),
        Sent (POST_reimport_scan
          (reimport_scan_data 31 ''Mobile'' ''PayGateway'' ''Nightly-SAST'')
          ''asoc_sast_reports/a.xml''),
        Printed (Successfully_reimported ''asoc_sast_reports/a.xml'' 31)])"
    using pid eid tid up
    by (simp add: loop_body_def process_report_def dispatch_def extract_xml_data_def
        path_join_def example_files_def io_bind_def io_except_def lift_result_def print_def)
  show "script (example_machine\<lparr>reports_dir := Some [''c.xml'', ''a.xml'']\<rparr>)
     memory_backend example_server =
   (0, example_server,
    [Wrote_token_file ''0123abcd'', Set_auth_token ''0123abcd'',
     Printed (Unexpected_error_processing ''c.xml'' (OSError ''asoc_sast_reports/c.xml'')),
     Printed (Processing ''a.xml'' ''PayGateway'' ''Nightly-SAST''),
     Sent (GET_product_types ''Mobile''),
     Sent (GET_products ''PayGateway''),
     Sent (GET_engagements 10 ''Nightly-SAST''),
     Sent (GET_tests 20 ''HCL AppScan on Cloud SAST XML''),
     Sent (POST_reimport_scan
       (reimport_scan_data 31 ''Mobile'' ''PayGateway'' ''Nightly-SAST'')
       ''asoc_sast_reports/a.xml''),
     Printed (Successfully_reimported ''asoc_sast_reports/a.xml'' 31)])"
    using c a
    by (simp add: script_def main_def example_startup io_bind_def io_except_def io_return_def)
      (simp add: example_machine_def)
qed

section \<open>The uploads\<close>

text \<open>
  Claim C6. The request of \<^verbatim>\<open>reimport_scan\<close> carries the located test identity under
  \<^verbatim>\<open>test\<close>, \<^verbatim>\<open>do_not_reactivate\<close> true, and \<^verbatim>\<open>deduplication_on_engagement\<close> and
  \<^verbatim>\<open>close_old_findings\<close> false. When the file can be opened and a response arrives,
  the function sends this one request and returns normally whatever the status is:
  it prints the success line exactly when the status is 201, and otherwise the
  failure line with the status and the content.
\<close>

theorem reimport_scan_request_and_outcome:
  assumes "fs xml_file_path \<noteq> Unreadable"
    and "reimport_scan_POST B s
           (reimport_scan_data test_id product_type_name product_name engagement_name)
           xml_file_path = (Some response, s')"
  shows "map_of (reimport_scan_data test_id product_type_name product_name engagement_name)
           ''test'' = Some (Num test_id) \<and>
         map_of (reimport_scan_data test_id product_type_name product_name engagement_name)
           ''do_not_reactivate'' = Some (Str ''true'') \<and>
         map_of (reimport_scan_data test_id product_type_name product_name engagement_name)
           ''deduplication_on_engagement'' = Some (Str ''false'') \<and>
         map_of (reimport_scan_data test_id product_type_name product_name engagement_name)
           ''close_old_findings'' = Some (Str ''false'') \<and>
         reimport_scan B fs xml_file_path test_id product_type_name product_name
           engagement_name s =
           (Inr (), s',
            [Sent (POST_reimport_scan
               (reimport_scan_data test_id product_type_name product_name engagement_name)
               xml_file_path),
             Printed (if status_code response = 201
                      then Successfully_reimported xml_file_path test_id
                      else Failed_to_reimport xml_file_path (status_code response)
                             (content response))])"
proof -
  have opened: "open_rb fs xml_file_path s = (Inr (), s, [])"
    using assms(1) by (cases "fs xml_file_path") (simp_all add: open_rb_def io_return_def)
  have "reimport_scan B fs xml_file_path test_id product_type_name product_name
           engagement_name s =
           (Inr (), s',
            [Sent (POST_reimport_scan
               (reimport_scan_data test_id product_type_name product_name engagement_name)
               xml_file_path),
             Printed (if status_code response = 201
                      then Successfully_reimported xml_file_path test_id
                      else Failed_to_reimport xml_file_path (status_code response)
                             (content response))])"
    using opened assms(2)
    by (simp add: reimport_scan_def io_bind_def session_post_def print_def)
  then show ?thesis by (simp add: reimport_scan_data_def)
qed

theorem reimport_scan_request_and_outcome_witness:
  "reimport_scan memory_backend example_files ''asoc_sast_reports/a.xml'' 31 ''Mobile''
     ''PayGateway'' ''Nightly-SAST'' example_server =
   (Inr (), example_server,
    [Sent (POST_reimport_scan
       [(''scan_type'', Str ''HCL AppScan on Cloud SAST XML''),
        (''product_type_name'', Str ''Mobile''),
        (''product_name'', Str ''PayGateway''),
        (''engagement_name'', Str ''Nightly-SAST''),
        (''test'', Num 31),
        (''auto_create_context'', Str ''true''),
        (''deduplication_on_engagement'', Str ''false''),
        (''close_old_findings'', Str ''false''),
        (''do_not_reactivate'', Str ''true'')]
       ''asoc_sast_reports/a.xml''),
     Printed (Successfully_reimported ''asoc_sast_reports/a.xml'' 31)]) \<and>
   reimport_scan (memory_backend\<lparr>reimport_scan_POST := (\<lambda>s data path. (Some server_error, s))\<rparr>)
     example_files ''asoc_sast_reports/a.xml'' 31 ''Mobile''
     ''PayGateway'' ''Nightly-SAST'' example_server =
   (Inr (), example_server,
    [Sent (POST_reimport_scan
       [(''scan_type'', Str ''HCL AppScan on Cloud SAST XML''),
        (''product_type_name'', Str ''Mobile''),
        (''product_name'', Str ''PayGateway''),
        (''engagement_name'', Str ''Nightly-SAST''),
        (''test'', Num 31),
        (''auto_create_context'', Str ''true''),
        (''deduplication_on_engagement'', Str ''false''),
        (''close_old_findings'', Str ''false''),
        (''do_not_reactivate'', Str ''true'')]
       ''asoc_sast_reports/a.xml''),
     Printed (Failed_to_reimport ''asoc_sast_reports/a.xml'' 500 ''Server Error'')])"
  using reimport_scan_request_and_outcome [of example_files "''asoc_sast_reports/a.xml''"
      memory_backend example_server 31 "''Mobile''" "''PayGateway''" "''Nightly-SAST''"
      "created ()" example_server]
    reimport_scan_request_and_outcome [of example_files "''asoc_sast_reports/a.xml''"
      "memory_backend\<lparr>reimport_scan_POST := (\<lambda>s data path. (Some server_error, s))\<rparr>"
      example_server 31 "''Mobile''" "''PayGateway''" "''Nightly-SAST''"
      server_error example_server]
  by (simp add: example_files_def memory_backend_def created_def server_error_def
      reimport_scan_data_def)

section \<open>The choice between import and reimport\<close>








section \<open>Error responses of the searches\<close>







section \<open>Fatal conditions at start-up\<close>

lemma config_get_missing:
  assumes "\<forall>keys. config section = Some keys \<longrightarrow> keys key = None"
  shows "\<exists>k. config_get config section key s = (Inl (KeyError k), s, [])"
  using assms by (cases "config section") (auto simp: config_get_def io_raise_def)

lemma config_get_present:
  assumes "config section = Some keys" and "keys key = Some v"
  shows "config_get config section key s = (Inr v, s, [])"
  using assms by (simp add: config_get_def io_return_def)

lemma authenticate_api_key:
  assumes "config ''credentials'' = Some keys" and "keys ''api_key'' = Some api_key"
  shows "authenticate B config s =
           (Inr (), s, [Wrote_token_file api_key, Set_auth_token api_key])"
  using config_get_present[of config "''credentials''" _ "''api_key''" _ s, OF assms]
  by (simp add: authenticate_def set_auth_token_def io_except_def io_bind_def emit_def)

lemma authenticate_no_credentials:
  assumes "\<forall>keys. config ''credentials'' = Some keys \<longrightarrow> keys ''api_key'' = None"
    and "(\<forall>keys. config ''credentials'' = Some keys \<longrightarrow> keys ''username'' = None) \<or>
         (\<forall>keys. config ''credentials'' = Some keys \<longrightarrow> keys ''password'' = None)"
  shows "authenticate B config s =
           (Inl (KeyError ''Missing api_key or username and password in settings.ini''), s, [])"
proof -
  obtain k where key: "config_get config ''credentials'' ''api_key'' s = (Inl (KeyError k), s, [])"
    using config_get_missing[of config "''credentials''" "''api_key''" s, OF assms(1)] by (elim exE)
  have inner: "\<exists>k'. io_bind (config_get config ''credentials'' ''username'') (\<lambda>username.
           io_bind (config_get config ''credentials'' ''password'') (\<lambda>password.
           io_bind (get_auth_token B username password) (\<lambda>token.
           set_auth_token token))) s = (Inl (KeyError k'), s, [])"
  proof (cases "\<forall>keys. config ''credentials'' = Some keys \<longrightarrow> keys ''username'' = None")
    case True
    from config_get_missing[of config "''credentials''" "''username''" s, OF True] show ?thesis
      by (auto simp: io_bind_def)
  next
    case False
    then obtain keys u where u: "config ''credentials'' = Some keys" "keys ''username'' = Some u"
      by auto
    from False assms(2)
    have "\<forall>keys. config ''credentials'' = Some keys \<longrightarrow> keys ''password'' = None" by blast
    from config_get_missing[of config "''credentials''" "''password''" s, OF this]
      config_get_present[of config "''credentials''" _ "''username''" _ s, OF u]
    show ?thesis
      by (auto simp: io_bind_def)
  qed
  then obtain k' where in': "io_bind (config_get config ''credentials'' ''username'') (\<lambda>username.
           io_bind (config_get config ''credentials'' ''password'') (\<lambda>password.
           io_bind (get_auth_token B username password) (\<lambda>token.
           set_auth_token token))) s = (Inl (KeyError k'), s, [])"
    by (elim exE)
  show ?thesis
    using key in'
    by (simp add: authenticate_def io_except_def io_bind_def io_raise_def)
qed

lemma authenticate_token_refused:
  assumes "\<forall>keys. config ''credentials'' = Some keys \<longrightarrow> keys ''api_key'' = None"
    and "config ''credentials'' = Some keys"
    and "keys ''username'' = Some username"
    and "keys ''password'' = Some password"
    and "api_token_auth_POST B s username password = (Some r, s')"
    and "status_code r \<noteq> 200"
  shows "authenticate B config s =
           (Inl (AuthenticationFailed (status_code r) (content r)), s',
            [Sent (POST_api_token_auth username password)])"
proof -
  obtain k where key: "config_get config ''credentials'' ''api_key'' s = (Inl (KeyError k), s, [])"
    using config_get_missing[of config "''credentials''" "''api_key''" s, OF assms(1)] by (elim exE)
  have tok: "get_auth_token B username password s =
      (Inl (AuthenticationFailed (status_code r) (content r)), s',
       [Sent (POST_api_token_auth username password)])"
    using assms(5,6) by (simp add: get_auth_token_def io_bind_def session_post_def io_raise_def)
  show ?thesis
    using key tok
      config_get_present[of config "''credentials''" _ "''username''" _ s, OF assms(2,3)]
      config_get_present[of config "''credentials''" _ "''password''" _ s, OF assms(2,4)]
    by (simp add: authenticate_def io_except_def io_bind_def)
qed

text \<open>
  Claim C10, as the code has it. When the start-up of \<^verbatim>\<open>main\<close> raises, each of the two
  scripts prints \<^verbatim>\<open>An error occurred: ...\<close> after what the start-up did and ends
  with exit status 0: the handler at the end of the file catches the exception and
  the file then ends normally. The start-up raises, before any report is read or
  any upload is sent, when \<^verbatim>\<open>settings.ini\<close> does not exist, when the credentials
  hold neither \<^verbatim>\<open>api_key\<close> nor both \<^verbatim>\<open>username\<close> and \<^verbatim>\<open>password\<close>, when the token
  exchange is answered with a status other than 200, and when the report directory
  does not exist.
\<close>

theorem fatal_startup_prints_and_ends:
  "(\<forall>e s' t. startup M B s = (Inl e, s', t) \<longrightarrow>
      script M B s = (0, s', t @ [Printed (An_error_occurred e)]) \<and>
      importer_script M B s = (0, s', t @ [Printed (An_error_occurred e)])) \<and>
   (settings_ini M = None \<longrightarrow>
      startup M B s =
        (Inl (FileNotFoundError ''settings.ini file not found in the script directory''), s, [])) \<and>
   (\<forall>config.
      settings_ini M = Some config \<and>
      (\<forall>keys. config ''credentials'' = Some keys \<longrightarrow> keys ''api_key'' = None) \<and>
      ((\<forall>keys. config ''credentials'' = Some keys \<longrightarrow> keys ''username'' = None) \<or>
       (\<forall>keys. config ''credentials'' = Some keys \<longrightarrow> keys ''password'' = None)) \<longrightarrow>
      startup M B s =
        (Inl (KeyError ''Missing api_key or username and password in settings.ini''), s, [])) \<and>
   (\<forall>config keys username password r s'.
      settings_ini M = Some config \<and>
      (\<forall>keys. config ''credentials'' = Some keys \<longrightarrow> keys ''api_key'' = None) \<and>
      config ''credentials'' = Some keys \<and>
      keys ''username'' = Some username \<and> keys ''password'' = Some password \<and>
      api_token_auth_POST B s username password = (Some r, s') \<and> status_code r \<noteq> 200 \<longrightarrow>
      startup M B s =
        (Inl (AuthenticationFailed (status_code r) (content r)), s',
         [Sent (POST_api_token_auth username password)])) \<and>
   (\<forall>config keys api_key settings product_type_name.
      settings_ini M = Some config \<and>
      config ''credentials'' = Some keys \<and> keys ''api_key'' = Some api_key \<and>
      config ''configuration'' = Some settings \<and>
      settings ''product_type_name'' = Some product_type_name \<and>
      reports_dir M = None \<longrightarrow>
      startup M B s =
        (Inl (FileNotFoundError ''Directory asoc_sast_reports not found''), s,
         [Wrote_token_file api_key, Set_auth_token api_key]))"
proof (intro conjI allI impI)
  fix e s' t
  assume st: "startup M B s = (Inl e, s', t)"
  then show "script M B s = (0, s', t @ [Printed (An_error_occurred e)])"
    by (simp add: script_def main_def io_except_def io_bind_def print_def)
  from st show "importer_script M B s = (0, s', t @ [Printed (An_error_occurred e)])"
    by (simp add: importer_script_def importer_main_def io_except_def io_bind_def print_def)
next
  assume "settings_ini M = None"
  then show "startup M B s =
      (Inl (FileNotFoundError ''settings.ini file not found in the script directory''), s, [])"
    by (simp add: startup_def io_raise_def)
next
  fix config
  assume h: "settings_ini M = Some config \<and>
      (\<forall>keys. config ''credentials'' = Some keys \<longrightarrow> keys ''api_key'' = None) \<and>
      ((\<forall>keys. config ''credentials'' = Some keys \<longrightarrow> keys ''username'' = None) \<or>
       (\<forall>keys. config ''credentials'' = Some keys \<longrightarrow> keys ''password'' = None))"
  then have "authenticate B config s =
      (Inl (KeyError ''Missing api_key or username and password in settings.ini''), s, [])"
    by (intro authenticate_no_credentials) simp_all
  with h show "startup M B s =
      (Inl (KeyError ''Missing api_key or username and password in settings.ini''), s, [])"
    by (simp add: startup_def io_bind_def)
next
  fix config keys username password r s'
  assume h: "settings_ini M = Some config \<and>
      (\<forall>keys. config ''credentials'' = Some keys \<longrightarrow> keys ''api_key'' = None) \<and>
      config ''credentials'' = Some keys \<and>
      keys ''username'' = Some username \<and> keys ''password'' = Some password \<and>
      api_token_auth_POST B s username password = (Some r, s') \<and> status_code r \<noteq> 200"
  then have "authenticate B config s =
      (Inl (AuthenticationFailed (status_code r) (content r)), s',
       [Sent (POST_api_token_auth username password)])"
    by (intro authenticate_token_refused[where keys = keys]) simp_all
  with h show "startup M B s =
      (Inl (AuthenticationFailed (status_code r) (content r)), s',
       [Sent (POST_api_token_auth username password)])"
    by (simp add: startup_def io_bind_def)
next
  fix config keys api_key settings product_type_name
  assume h: "settings_ini M = Some config \<and>
      config ''credentials'' = Some keys \<and> keys ''api_key'' = Some api_key \<and>
      config ''configuration'' = Some settings \<and>
      settings ''product_type_name'' = Some product_type_name \<and>
      reports_dir M = None"
  then have auth: "authenticate B config s =
      (Inr (), s, [Wrote_token_file api_key, Set_auth_token api_key])"
    by (intro authenticate_api_key[where keys = keys]) simp_all
  from h have "config_get config ''configuration'' ''product_type_name'' s =
      (Inr product_type_name, s, [])"
    by (intro config_get_present[of config "''configuration''" settings "''product_type_name''"]) simp_all
  with h auth show "startup M B s =
      (Inl (FileNotFoundError ''Directory asoc_sast_reports not found''), s,
       [Wrote_token_file api_key, Set_auth_token api_key])"
    by (simp add: startup_def io_bind_def io_except_def io_raise_def)
qed

theorem fatal_startup_prints_and_ends_witness:
  "script (example_machine\<lparr>reports_dir := None\<rparr>) memory_backend example_server =
     (0, example_server,
      [Wrote_token_file ''0123abcd'', Set_auth_token ''0123abcd'',
       Printed (An_error_occurred (FileNotFoundError ''Directory asoc_sast_reports not found''))]) \<and>
   importer_script (example_machine\<lparr>settings_ini := Some (\<lambda>section. None)\<rparr>) memory_backend
     example_server =
     (0, example_server,
      [Printed (An_error_occurred
         (KeyError ''Missing api_key or username and password in settings.ini''))])"
proof -
  note a = fatal_startup_prints_and_ends [of "example_machine\<lparr>reports_dir := None\<rparr>"
      memory_backend example_server]
  note b = fatal_startup_prints_and_ends [of
      "example_machine\<lparr>settings_ini := Some (\<lambda>section. None)\<rparr>" memory_backend example_server]
  have 1: "startup (example_machine\<lparr>reports_dir := None\<rparr>) memory_backend example_server =
      (Inl (FileNotFoundError ''Directory asoc_sast_reports not found''), example_server,
       [Wrote_token_file ''0123abcd'', Set_auth_token ''0123abcd''])"
    using a by (simp add: example_machine_def example_config_def)
  have 2: "startup (example_machine\<lparr>settings_ini := Some (\<lambda>section. None)\<rparr>) memory_backend
      example_server =
      (Inl (KeyError ''Missing api_key or username and password in settings.ini''),
       example_server, [])"
    using b by (simp add: example_machine_def)
  show ?thesis using a b 1 2 by simp
qed

text \<open>
  The claim as written fails on the exit status: with no \<^verbatim>\<open>settings.ini\<close> the script
  prints the diagnostic and ends with exit status 0.
\<close>

theorem fatal_startup_exit_status_counterexample:
  "script (example_machine\<lparr>settings_ini := None\<rparr>) memory_backend example_server =
     (0, example_server,
      [Printed (An_error_occurred
         (FileNotFoundError ''settings.ini file not found in the script directory''))])"
  by (simp add: script_def main_def startup_def io_defs)

section \<open>The import-only script against the full one\<close>

lemma importer_import_scan_requests:
  assumes "importer_import_scan B fs xml_file_path product_type_name product_name
             engagement_name s = (r, s', t)"
  shows "requests t = [] \<or>
         requests t =
           [POST_import_scan
              (importer_import_scan_data product_type_name product_name engagement_name)
              xml_file_path]"
proof (cases "fs xml_file_path = Unreadable")
  case True
  with assms show ?thesis
    by (auto simp: importer_import_scan_def open_rb_def io_bind_def io_raise_def)
next
  case False
  then have opened: "open_rb fs xml_file_path s = (Inr (), s, [])"
    by (cases "fs xml_file_path") (simp_all add: open_rb_def io_return_def)
  obtain resp s1 where post: "import_scan_POST B s
      (importer_import_scan_data product_type_name product_name engagement_name) xml_file_path =
      (resp, s1)"
    by (cases "import_scan_POST B s
      (importer_import_scan_data product_type_name product_name engagement_name) xml_file_path")
  show ?thesis
  proof (cases resp)
    case None
    with assms opened post show ?thesis
      by (auto simp: importer_import_scan_def io_bind_def session_post_def)
  next
    case (Some response)
    with assms opened post show ?thesis
      by (auto simp: importer_import_scan_def io_bind_def session_post_def print_def
          split: if_splits)
  qed
qed

text \<open>
  Claim C8, as the code has it. The import-only script always takes the CreateNew
  action: for a report it resolves nothing and sends at most one request, an
  \<^verbatim>\<open>import-scan\<close> upload, and that only when both names were extracted. Its upload
  is not the one of the full script: its form is the full script's import form with
  \<^verbatim>\<open>deduplication_on_engagement\<close> and \<^verbatim>\<open>close_old_findings\<close> set to \<^verbatim>\<open>true\<close> in
  place of \<^verbatim>\<open>false\<close>.
\<close>

theorem importer_always_imports_with_other_flags:
  "importer_import_scan_data product_type_name product_name engagement_name =
     map (\<lambda>(k, v).
            if k = ''deduplication_on_engagement'' \<or> k = ''close_old_findings''
            then (k, Str ''true'') else (k, v))
       (import_scan_data product_type_name product_name engagement_name) \<and>
   (\<forall>r s' t.
      importer_process_report B fs product_type_name xml_file xml_file_path s = (r, s', t) \<longrightarrow>
        requests t = [] \<or>
        (\<exists>product_name engagement_name.
           extract_xml_data fs xml_file_path = Inr (product_name, engagement_name) \<and>
           requests t =
             [POST_import_scan
                (importer_import_scan_data product_type_name product_name engagement_name)
                xml_file_path]))"
proof (intro conjI allI impI)
  show "importer_import_scan_data product_type_name product_name engagement_name =
     map (\<lambda>(k, v).
            if k = ''deduplication_on_engagement'' \<or> k = ''close_old_findings''
            then (k, Str ''true'') else (k, v))
       (import_scan_data product_type_name product_name engagement_name)"
    by (simp add: importer_import_scan_data_def import_scan_data_def)
next
  fix r s' t
  assume run: "importer_process_report B fs product_type_name xml_file xml_file_path s =
      (r, s', t)"
  show "requests t = [] \<or>
        (\<exists>product_name engagement_name.
           extract_xml_data fs xml_file_path = Inr (product_name, engagement_name) \<and>
           requests t =
             [POST_import_scan
                (importer_import_scan_data product_type_name product_name engagement_name)
                xml_file_path])"
  proof (cases "extract_xml_data fs xml_file_path")
    case (Inl e)
    with run have "t = []"
      by (simp add: importer_process_report_def io_bind_def lift_result_def)
    then show ?thesis by simp
  next
    case (Inr names)
    obtain pn en where names: "names = (pn, en)" by (cases names)
    obtain r1 s1 t1 where up: "importer_import_scan B fs xml_file_path product_type_name pn en s =
        (r1, s1, t1)"
      by (cases "importer_import_scan B fs xml_file_path product_type_name pn en s")
    from run Inr names up have t: "t = Printed (Importing xml_file pn en) # t1"
      by (simp add: importer_process_report_def io_bind_def lift_result_def print_def)
    from importer_import_scan_requests[OF up] t Inr names show ?thesis by auto
  qed
qed

theorem importer_always_imports_with_other_flags_witness:
  "importer_process_report memory_backend example_files ''Mobile'' ''a.xml''
     ''asoc_sast_reports/a.xml'' example_server =
     (Inr (), example_server,
      [Printed (Importing ''a.xml'' ''PayGateway'' ''Nightly-SAST''),
       Sent (POST_import_scan
         [(''scan_type'', Str ''HCL AppScan on Cloud SAST XML''),
          (''product_type_name'', Str ''Mobile''),
          (''product_name'', Str ''PayGateway''),
          (''engagement_name'', Str ''Nightly-SAST''),
          (''auto_create_context'', Str ''true''),
          (''deduplication_on_engagement'', Str ''true''),
          (''close_old_findings'', Str ''true'')]
         ''asoc_sast_reports/a.xml''),
       Printed (Successfully_imported ''asoc_sast_reports/a.xml'')]) \<and>
   requests (snd (snd (importer_process_report memory_backend example_files ''Mobile'' ''a.xml''
     ''asoc_sast_reports/a.xml'' example_server))) =
     [POST_import_scan (importer_import_scan_data ''Mobile'' ''PayGateway'' ''Nightly-SAST'')
        ''asoc_sast_reports/a.xml'']"
  using importer_always_imports_with_other_flags [of "''Mobile''" "''PayGateway''"
      "''Nightly-SAST''" memory_backend example_files "''a.xml''" "''asoc_sast_reports/a.xml''"
      example_server]
  by (simp add: importer_process_report_def importer_import_scan_def extract_xml_data_def
      example_files_def open_rb_def memory_backend_def created_def io_defs
      importer_import_scan_data_def)

text \<open>
  The claim as written fails: for the same report, names and server, the upload of
  the import-only script and the initial import of the full script are different
  requests.
\<close>

theorem importer_upload_differs_counterexample:
  "importer_import_scan memory_backend example_files ''asoc_sast_reports/a.xml'' ''Mobile''
     ''PayGateway'' ''Nightly-SAST'' example_server =
     (Inr (), example_server,
      [Sent (POST_import_scan
         [(''scan_type'', Str ''HCL AppScan on Cloud SAST XML''),
          (''product_type_name'', Str ''Mobile''),
          (''product_name'', Str ''PayGateway''),
          (''engagement_name'', Str ''Nightly-SAST''),
          (''auto_create_context'', Str ''true''),
          (''deduplication_on_engagement'', Str ''true''),
          (''close_old_findings'', Str ''true'')]
         ''asoc_sast_reports/a.xml''),
       Printed (Successfully_imported ''asoc_sast_reports/a.xml'')]) \<and>
   import_scan memory_backend example_files ''asoc_sast_reports/a.xml'' ''Mobile''
     ''PayGateway'' ''Nightly-SAST'' example_server =
     (Inr (), example_server,
      [Sent (POST_import_scan
         [(''scan_type'', Str ''HCL AppScan on Cloud SAST XML''),
          (''product_type_name'', Str ''Mobile''),
          (''product_name'', Str ''PayGateway''),
          (''engagement_name'', Str ''Nightly-SAST''),
          (''auto_create_context'', Str ''true''),
          (''deduplication_on_engagement'', Str ''false''),
          (''close_old_findings'', Str ''false'')]
         ''asoc_sast_reports/a.xml''),
       Printed (Successfully_imported ''asoc_sast_reports/a.xml'')]) \<and>
   importer_import_scan memory_backend example_files ''asoc_sast_reports/a.xml'' ''Mobile''
     ''PayGateway'' ''Nightly-SAST'' example_server \<noteq>
   import_scan memory_backend example_files ''asoc_sast_reports/a.xml'' ''Mobile''
     ''PayGateway'' ''Nightly-SAST'' example_server"
  by (simp add: importer_import_scan_def import_scan_def example_files_def open_rb_def
      memory_backend_def created_def io_defs importer_import_scan_data_def import_scan_data_def)

section \<open>Resolving the same product twice\<close>











end
